theory Spec2Isabelle
  imports Main "HOL-Library.Sublist"
begin

section \<open>Python string primitives used by the chat worker\<close>

text \<open>
  Python strings are modelled as \<open>string\<close>; a character stands for the code point of
  the same number. \<open>isspace\<close> lists the code points below 256 for which Python's
  \<open>str.isspace\<close> holds; \<open>strip\<close> is \<open>str.strip()\<close> without arguments.
\<close>

definition isspace :: "char \<Rightarrow> bool" where
  "isspace c = (c \<in> set [CHR 0x09, CHR 0x0A, CHR 0x0B, CHR 0x0C, CHR 0x0D,
                          CHR 0x1C, CHR 0x1D, CHR 0x1E, CHR 0x1F, CHR 0x20,
                          CHR 0x85, CHR 0xA0])"

definition lstrip :: "string \<Rightarrow> string" where
  "lstrip s = dropWhile isspace s"

definition rstrip :: "string \<Rightarrow> string" where
  "rstrip s = rev (dropWhile isspace (rev s))"

definition strip :: "string \<Rightarrow> string" where
  "strip s = rstrip (lstrip s)"

text \<open>
  \<open>find_sub sep s\<close> is \<open>s.find(sep)\<close>: the lowest index at which \<open>sep\<close> occurs in
  \<open>s\<close>, \<open>None\<close> where Python answers \<open>-1\<close>.
\<close>

fun find_sub :: "string \<Rightarrow> string \<Rightarrow> nat option" where
  "find_sub sep [] = (if sep = [] then Some 0 else None)"
| "find_sub sep (c # cs) =
     (if prefix sep (c # cs) then Some 0 else map_option Suc (find_sub sep cs))"

text \<open>
  \<open>py_split s sep\<close> is \<open>s.split(sep)\<close>: cut at each occurrence of \<open>sep\<close>, found from
  left to right without overlap. Python raises \<open>ValueError\<close> on an empty separator;
  the worker only ever passes the two marker constants, and the model returns \<open>[s]\<close>
  for the empty separator.
\<close>

function py_split :: "string \<Rightarrow> string \<Rightarrow> string list" where
  "py_split s sep =
     (case find_sub sep s of
        None \<Rightarrow> [s]
      | Some i \<Rightarrow> if sep = [] then [s]
                  else take i s # py_split (drop (i + length sep) s) sep)"
  by pat_completeness auto
termination
proof (relation "measure (\<lambda>(s, sep). length s)")
  show "wf (measure (\<lambda>(s, sep). length s))" by simp
next
  fix s sep :: string and i :: nat
  assume f: "find_sub sep s = Some i" and ne: "sep \<noteq> []"
  have "s \<noteq> []"
  proof
    assume "s = []"
    with f ne show False by simp
  qed
  with ne show "((drop (i + length sep) s, sep), (s, sep)) \<in> measure (\<lambda>(s, sep). length s)"
    by simp
qed

declare py_split.simps [simp del]

section \<open>ContentSplitter: \<open>ChatWorker.extract_content_and_thoughts\<close>\<close>

text \<open>
  The body of the \<open>try\<close> block. \<open>parts[0]\<close> is taken by pattern matching; the empty
  list, on which Python would raise \<open>IndexError\<close> and run the handler
  \<open>return content.strip(), ""\<close>, is the first case.
\<close>

definition extract_content_and_thoughts :: "string \<Rightarrow> string \<times> string" where
  "extract_content_and_thoughts content =
     (case py_split content ''<think>'' of
        [] \<Rightarrow> (strip content, '''')
      | p0 # ps \<Rightarrow>
          (let before_think = strip p0 in
           case ps of
             [] \<Rightarrow> (before_think, '''')
           | p1 # _ \<Rightarrow>
               (case py_split p1 ''</think>'' of
                  [] \<Rightarrow> (strip content, '''')
                | t0 # ts \<Rightarrow>
                    (let think_content = strip t0 in
                     case ts of
                       [] \<Rightarrow> (before_think, think_content)
                     | t1 # _ \<Rightarrow>
                         (let after_think = strip t1
                          in (strip (before_think @ '' '' @ after_think), think_content))))))"

section \<open>The element tree of \<open>xml.etree.ElementTree\<close>\<close>

text \<open>
  An \<open>Element\<close> has a tag, the text before its first child (\<open>None\<close> when there is
  none), its children, and the text between its end tag and the next tag (its tail).
  Attributes play no role in the validator and are left out.
\<close>

datatype element =
  Element (el_tag: string) (el_text: "string option") (el_children: "element list")
    (el_tail: "string option")

text \<open>
  \<open>list.index\<close> compares elements by identity. A node is an element together with
  its position in the tree (the child indices on the way down from the root), so two
  equal-looking elements at different places stay different objects.
\<close>

type_synonym node = "nat list \<times> element"

text \<open>\<open>Element.iter()\<close>: the element itself, then its descendants, in document order.\<close>

fun iter_from :: "nat list \<Rightarrow> element \<Rightarrow> node list"
  and iter_children :: "nat list \<Rightarrow> nat \<Rightarrow> element list \<Rightarrow> node list" where
  "iter_from p (Element tg tx kids ta) = (p, Element tg tx kids ta) # iter_children p 0 kids"
| "iter_children p i [] = []"
| "iter_children p i (k # ks) = iter_from (p @ [i]) k @ iter_children p (Suc i) ks"

definition iter :: "element \<Rightarrow> node list" where
  "iter tree = iter_from [] tree"

text \<open>\<open>list(parent)\<close>: the children of a node, each at its own position.\<close>

definition child_nodes :: "node \<Rightarrow> node list" where
  "child_nodes n = map (\<lambda>(i, c). (fst n @ [i], c)) (enumerate 0 (el_children (snd n)))"

definition is_think :: "node \<Rightarrow> bool" where
  "is_think n = (el_tag (snd n) = ''think'')"

text \<open>
  \<open>tree.findall('.//think')\<close>: every descendant (the root itself excluded) whose tag
  is \<open>think\<close>, in document order.
\<close>

definition findall_think :: "element \<Rightarrow> node list" where
  "findall_think tree = filter is_think (tl (iter tree))"

text \<open>
  \<open>tree.find('.//*[think]')\<close>: the first descendant (the root itself excluded) that has
  a child element tagged \<open>think\<close>; \<open>None\<close> when there is none.
\<close>

definition find_think_parent :: "element \<Rightarrow> node option" where
  "find_think_parent tree =
     List.find (\<lambda>n. list_ex (\<lambda>c. el_tag c = ''think'') (el_children (snd n))) (tl (iter tree))"

text \<open>\<open>xs.index(x)\<close>; \<open>None\<close> stands for the \<open>ValueError\<close> Python raises.\<close>

fun index_of :: "'a list \<Rightarrow> 'a \<Rightarrow> nat option" where
  "index_of [] x = None"
| "index_of (y # ys) x = (if y = x then Some 0 else map_option Suc (index_of ys x))"

section \<open>ResponseValidator: \<open>ChatWorker.validate_response\<close>\<close>

text \<open>
  An exception is represented by its \<open>str()\<close>. The \<open>ValueError\<close> of \<open>list.index\<close>
  reads \<open><Element 'think' at 0x...> is not in list\<close>; the object's address is not
  modelled and left as dots.
\<close>

definition not_in_list :: "node \<Rightarrow> string" where
  "not_in_list n = ''<Element '' @ [CHR 0x27] @ el_tag (snd n) @ [CHR 0x27] @
                   '' at 0x...> is not in list''"

text \<open>
  The part of \<open>validate_response\<close> after the parse. The result is \<open>Inr\<close> of the
  returned boolean, or \<open>Inl\<close> of the \<open>ValueError\<close> that escapes the function
  (only \<open>ET.ParseError\<close> is caught there).
\<close>

definition validate_tree :: "element \<Rightarrow> string + bool" where
  "validate_tree tree =
     (let think_elements = findall_think tree in
      if think_elements = [] then Inr False
      else
        let last_think = last think_elements in
        if (case el_text (snd last_think) of
              None \<Rightarrow> True
            | Some t \<Rightarrow> t = [] \<or> length (strip t) < 10)
        then Inr False
        else
          let last_element =
                (case filter is_think (iter tree) of [] \<Rightarrow> None | n # ns \<Rightarrow> Some (last (n # ns)))
          in case last_element of
               None \<Rightarrow> Inr True
             | Some le \<Rightarrow>
                 (case find_think_parent tree of
                    None \<Rightarrow> Inr True
                  | Some parent \<Rightarrow>
                      (case index_of (child_nodes parent) le of
                         None \<Rightarrow> Inl (not_in_list le)
                       | Some think_index \<Rightarrow>
                           if int think_index < int (length (child_nodes parent)) - 1
                           then Inr False
                           else Inr True)))"

text \<open>
  \<open>validate_response\<close>, with the XML parser \<open>ET.fromstring\<close> as a parameter: it
  returns the root element, or \<open>None\<close> for \<open>ET.ParseError\<close>.
\<close>

type_synonym xml_parser = "string \<Rightarrow> element option"

definition validate_response :: "xml_parser \<Rightarrow> string \<Rightarrow> string + bool" where
  "validate_response parse content =
     (if content = [] then Inr False
      else case parse (''<root>'' @ content @ ''</root>'') of
             None \<Rightarrow> Inr False
           | Some tree \<Rightarrow> validate_tree tree)"

section \<open>A model of \<open>ET.fromstring\<close> on plain markup\<close>

text \<open>
  The parser is the Python standard library's (expat behind \<open>ElementTree\<close>), not code
  of the application. \<open>fromstring\<close> models it on the fragment the replies of the
  examples use: character data, the five predefined entity references, and start, end
  and empty-element tags without attributes, with ASCII names. On that fragment it
  follows the XML rules expat enforces (tags must nest, one root element, no control
  characters, no \<open>]]>\<close> in character data, line ends normalised to \<open>\n\<close>).
  Attributes, comments, CDATA sections, processing instructions, numeric character
  references and names with a colon are outside the fragment; the model answers \<open>None\<close>
  on them, which is not a statement about the library.
\<close>

datatype piece = Markup string | Chars string

datatype token = StartTag string | EndTag string | EmptyTag string | CharData string

definition chars :: "string \<Rightarrow> piece list" where
  "chars acc = (if acc = [] then [] else [Chars (rev acc)])"

text \<open>
  \<open>scan in_tag acc s\<close> cuts the input at \<open><\<close> and \<open>>\<close>; \<open>acc\<close> holds the characters
  of the current piece in reverse.
\<close>

fun scan :: "bool \<Rightarrow> string \<Rightarrow> string \<Rightarrow> piece list option" where
  "scan False acc [] = Some (chars acc)"
| "scan True acc [] = None"
| "scan False acc (c # cs) =
     (if c = CHR ''<'' then map_option ((@) (chars acc)) (scan True [] cs)
      else scan False (c # acc) cs)"
| "scan True acc (c # cs) =
     (if c = CHR ''>'' then map_option ((#) (Markup (rev acc))) (scan False [] cs)
      else if c = CHR ''<'' then None
      else scan True (c # acc) cs)"

definition xml_space :: "char \<Rightarrow> bool" where
  "xml_space c = (c \<in> set [CHR 0x20, CHR 0x09, CHR 0x0D, CHR 0x0A])"

definition name_start :: "char \<Rightarrow> bool" where
  "name_start c = (c \<in> set ''abcdefghijklmnopqrstuvwxyzABCDEFGHIJKLMNOPQRSTUVWXYZ_'')"

definition name_char :: "char \<Rightarrow> bool" where
  "name_char c = (name_start c \<or> c \<in> set ''0123456789-.'')"

fun is_name :: "string \<Rightarrow> bool" where
  "is_name [] = False"
| "is_name (c # cs) = (name_start c \<and> list_all name_char cs)"

definition named :: "(string \<Rightarrow> token) \<Rightarrow> string \<Rightarrow> token option" where
  "named mk body =
     (let n = rev (dropWhile xml_space (rev body)) in if is_name n then Some (mk n) else None)"

text \<open>
  Character data: entity references are replaced, \<open>\r\n\<close> and \<open>\r\<close> become \<open>\n\<close>,
  and a control character, a stray \<open>&\<close> or \<open>]]>\<close> is a parse error.
\<close>

fun decode :: "string \<Rightarrow> string option" where
  "decode [] = Some []"
| "decode (c # cs) =
     (if c = CHR ''&'' then
        (if prefix ''lt;'' cs then map_option ((#) CHR ''<'') (decode (drop 3 cs))
         else if prefix ''gt;'' cs then map_option ((#) CHR ''>'') (decode (drop 3 cs))
         else if prefix ''amp;'' cs then map_option ((#) CHR ''&'') (decode (drop 4 cs))
         else if prefix ''quot;'' cs then map_option ((#) CHR 0x22) (decode (drop 5 cs))
         else if prefix ''apos;'' cs then map_option ((#) CHR 0x27) (decode (drop 5 cs))
         else None)
      else if c = CHR 0x0D then
        (if prefix [CHR 0x0A] cs then decode cs else map_option ((#) CHR 0x0A) (decode cs))
      else if (of_char c :: nat) < 32 \<and> c \<noteq> CHR 0x09 \<and> c \<noteq> CHR 0x0A then None
      else if prefix '']]>'' (c # cs) then None
      else map_option ((#) c) (decode cs))"

fun token_of :: "piece \<Rightarrow> token option" where
  "token_of (Chars s) = map_option CharData (decode s)"
| "token_of (Markup []) = None"
| "token_of (Markup (c # cs)) =
     (if c = CHR ''/'' then named EndTag cs
      else if last (c # cs) = CHR ''/'' then named EmptyTag (butlast (c # cs))
      else named StartTag (c # cs))"

definition tokens_of :: "string \<Rightarrow> token list option" where
  "tokens_of s =
     (case scan False [] s of None \<Rightarrow> None | Some ps \<Rightarrow> those (map token_of ps))"

text \<open>
  The tree builder keeps the stack of open elements. A frame is an open element: its
  tag, its text so far, and its closed children, last one first. Character data goes
  to the text of the open element while it has no child, afterwards to the tail of its
  last child.
\<close>

datatype frame = Frame string "string option" "element list"

definition more_data :: "string option \<Rightarrow> string \<Rightarrow> string option" where
  "more_data old d = Some (case old of None \<Rightarrow> d | Some t \<Rightarrow> t @ d)"

fun add_data :: "string \<Rightarrow> frame \<Rightarrow> frame" where
  "add_data d (Frame tg tx []) = Frame tg (more_data tx d) []"
| "add_data d (Frame tg tx (Element kt kx kk ka # ks)) =
     Frame tg tx (Element kt kx kk (more_data ka d) # ks)"

fun add_child :: "element \<Rightarrow> frame \<Rightarrow> frame" where
  "add_child e (Frame tg tx ks) = Frame tg tx (e # ks)"

fun blank :: "token \<Rightarrow> bool" where
  "blank (CharData d) = list_all xml_space d"
| "blank _ = False"

fun build :: "frame list \<Rightarrow> token list \<Rightarrow> element option" where
  "build [] ts = None"
| "build (f # stack) [] = None"
| "build (f # stack) (CharData d # ts) = build (add_data d f # stack) ts"
| "build (f # stack) (StartTag n # ts) = build (Frame n None [] # f # stack) ts"
| "build (f # stack) (EmptyTag n # ts) = build (add_child (Element n None [] None) f # stack) ts"
| "build (Frame tg tx ks # stack) (EndTag n # ts) =
     (if n \<noteq> tg then None
      else case stack of
             [] \<Rightarrow> if list_all blank ts then Some (Element tg tx (rev ks) None) else None
           | parent # stack' \<Rightarrow> build (add_child (Element tg tx (rev ks) None) parent # stack') ts)"

definition fromstring :: xml_parser where
  "fromstring s =
     (case tokens_of s of
        None \<Rightarrow> None
      | Some [] \<Rightarrow> None
      | Some (StartTag n # ts) \<Rightarrow> build [Frame n None []] ts
      | Some (EmptyTag n # ts) \<Rightarrow>
          if list_all blank ts then Some (Element n None [] None) else None
      | Some (_ # ts) \<Rightarrow> None)"

section \<open>PromptEscalator and RetryOrchestrator: \<open>ChatWorker.get_valid_response\<close>\<close>

record message =
  m_role :: string
  m_content :: string

record chat_worker =
  w_prompt :: string
  w_message_history :: "message list"
  w_max_retries :: int
  w_model :: string
  w_system_prompt :: string

definition enhanced_prompts :: "string list" where
  "enhanced_prompts =
     [''IMPORTANT: Your response MUST end with <think></think>'',
      ''CRITICAL: You MUST include meaningful thoughts in <think></think> tags at the END of your response'',
      ''FINAL REMINDER: Response format must be: [Your answer] followed by <think>your thoughts</think>'',
      ''STRICT REQUIREMENT: End your response with detailed thoughts in <think></think> tags'',
      ''MANDATORY: Include substantial thoughts (>10 words) in <think></think> tags at the end'']"

definition enhance_prompt :: "nat \<Rightarrow> string" where
  "enhance_prompt failed_attempts =
     enhanced_prompts ! min failed_attempts (length enhanced_prompts - 1)"

text \<open>Decimal rendering of a number inside an f-string.\<close>

function str_nat :: "nat \<Rightarrow> string" where
  "str_nat n =
     (if n < 10 then [''0123456789'' ! n] else str_nat (n div 10) @ [''0123456789'' ! (n mod 10)])"
  by pat_completeness auto
termination
  by (relation "measure (\<lambda>n. n)") auto

declare str_nat.simps [simp del]

definition str_int :: "int \<Rightarrow> string" where
  "str_int i = (if i < 0 then ''-'' @ str_nat (nat (- i)) else str_nat (nat i))"

text \<open>
  The backend: \<open>chat k model messages\<close> is what the \<open>k\<close>-th call of the run (counted
  from 0) to \<open>ollama.chat\<close> gives for that request: \<open>Inr\<close> of
  \<open>response['message']['content']\<close>, or \<open>Inl\<close> of the \<open>str()\<close> of the exception
  raised.
\<close>

type_synonym backend = "nat \<Rightarrow> string \<Rightarrow> message list \<Rightarrow> string + string"

definition initial_messages :: "chat_worker \<Rightarrow> message list" where
  "initial_messages w =
     [\<lparr>m_role = ''system'', m_content = w_system_prompt w\<rparr>] @
     (if length (w_message_history w) > 10
      then drop (length (w_message_history w) - 10) (w_message_history w)
      else w_message_history w) @
     [\<lparr>m_role = ''user'', m_content = w_prompt w\<rparr>]"

text \<open>The two entries appended after a rejected reply.\<close>

definition escalation :: "chat_worker \<Rightarrow> nat \<Rightarrow> message list" where
  "escalation w attempt =
     [\<lparr>m_role = ''system'', m_content = enhance_prompt attempt\<rparr>,
      \<lparr>m_role = ''user'', m_content = w_prompt w\<rparr>]"

text \<open>
  The \<open>for attempt in range(self.max_retries)\<close> loop, from \<open>attempt\<close> on. \<open>sent\<close> is
  the list of requests issued to the backend so far, oldest first. The result is the
  returned content (\<open>Inr\<close>) or the message of the exception raised (\<open>Inl\<close>), with the
  requests issued. An exception of the validator is caught by the same
  \<open>except Exception\<close> as one of the backend.
\<close>

function attempts ::
  "xml_parser \<Rightarrow> backend \<Rightarrow> chat_worker \<Rightarrow> nat \<Rightarrow> message list \<Rightarrow> message list list \<Rightarrow>
   (string + string) \<times> message list list" where
  "attempts parse chat w attempt messages sent =
     (if int attempt < w_max_retries w then
        (case chat (length sent) (w_model w) messages of
           Inl e \<Rightarrow>
             if int attempt = w_max_retries w - 1
             then (Inl (''Failed to get valid response after '' @ str_int (w_max_retries w) @
                        '' attempts: '' @ e), sent @ [messages])
             else attempts parse chat w (Suc attempt) messages (sent @ [messages])
         | Inr content \<Rightarrow>
             (case validate_response parse content of
                Inl e \<Rightarrow>
                  if int attempt = w_max_retries w - 1
                  then (Inl (''Failed to get valid response after '' @ str_int (w_max_retries w) @
                             '' attempts: '' @ e), sent @ [messages])
                  else attempts parse chat w (Suc attempt) messages (sent @ [messages])
              | Inr valid \<Rightarrow>
                  if valid then (Inr content, sent @ [messages])
                  else attempts parse chat w (Suc attempt) (messages @ escalation w attempt)
                         (sent @ [messages])))
      else (Inl ''Failed to get valid response with proper think tags'', sent))"
  by pat_completeness auto
termination
  by (relation "measure (\<lambda>(parse, chat, w, attempt, messages, sent).
                   nat (w_max_retries w - int attempt))") auto

declare attempts.simps [simp del]

definition get_valid_response ::
  "xml_parser \<Rightarrow> backend \<Rightarrow> chat_worker \<Rightarrow> (string + string) \<times> message list list" where
  "get_valid_response parse chat w = attempts parse chat w 0 (initial_messages w) []"

text \<open>
  A stub backend for examples: the \<open>k\<close>-th call is answered by the \<open>k\<close>-th entry of a
  script, whatever the request.
\<close>

definition scripted :: "(string + string) list \<Rightarrow> backend" where
  "scripted replies k model messages =
     (if k < length replies then replies ! k else Inl ''no reply scripted'')"

definition system_entries :: "message list \<Rightarrow> nat" where
  "system_entries ms = length (filter (\<lambda>m. m_role m = ''system'') ms)"

section \<open>ChatStore and ChatCatalog: \<open>ChatManager\<close>\<close>

record stored_message =
  sm_role :: string
  sm_content :: string
  sm_timestamp :: string

text \<open>
  A catalog entry. The key \<open>messages\<close> may be missing in a catalog read from disk
  (\<open>save_message\<close> tests for it), hence the option.
\<close>

record chat_entry =
  e_created_at :: string
  e_updated_at :: string
  e_title :: string
  e_messages :: "stored_message list option"

text \<open>
  The manager with the files it owns: \<open>chat_files\<close> maps a chat id to the \<open>messages\<close>
  list of \<open>chats/<id>.json\<close>, \<open>metadata_file\<close> is \<open>chats_metadata.json\<close>,
  \<open>chats_metadata\<close> the dictionary in memory. Reads and writes of existing
  directories succeed; other I/O failures are not modelled.
\<close>

record chat_manager =
  chat_files :: "string \<rightharpoonup> stored_message list"
  metadata_file :: "string \<rightharpoonup> chat_entry"
  chats_metadata :: "string \<rightharpoonup> chat_entry"
  active_chat_id :: "string option"

datatype store_error = NoActiveChat | ChatNotFound string | KeyError string

text \<open>The state \<open>__init__\<close> reaches on an empty data directory before its first chat.\<close>

definition empty_store :: chat_manager where
  "empty_store =
     \<lparr>chat_files = Map.empty, metadata_file = Map.empty, chats_metadata = Map.empty,
      active_chat_id = None\<rparr>"

text \<open>
  \<open>create_new_chat\<close>; \<open>chat_id\<close> is the value of \<open>str(uuid.uuid4())\<close> and
  \<open>timestamp\<close> that of \<open>datetime.now().isoformat()\<close>. The title is computed before
  the entry is stored.
\<close>

definition create_new_chat ::
  "string \<Rightarrow> string \<Rightarrow> chat_manager \<Rightarrow> (string \<times> string) \<times> chat_manager" where
  "create_new_chat chat_id timestamp s =
     (let entry = \<lparr>e_created_at = timestamp, e_updated_at = timestamp,
                   e_title = ''Chat '' @ str_nat (card (dom (chats_metadata s)) + 1),
                   e_messages = Some []\<rparr>;
          md = (chats_metadata s)(chat_id \<mapsto> entry)
      in ((chat_id, e_title entry),
          s\<lparr>chats_metadata := md,
            chat_files := (chat_files s)(chat_id \<mapsto> []),
            metadata_file := md,
            active_chat_id := Some chat_id\<rparr>))"

definition load_chat ::
  "string \<Rightarrow> chat_manager \<Rightarrow> (store_error + stored_message list) \<times> chat_manager" where
  "load_chat chat_id s =
     (case chat_files s chat_id of
        None \<Rightarrow> (Inl (ChatNotFound chat_id), s)
      | Some msgs \<Rightarrow> (Inr msgs, s\<lparr>active_chat_id := Some chat_id\<rparr>))"

text \<open>
  \<open>save_message\<close>. \<open>not self.active_chat_id\<close> holds for \<open>None\<close> and for the empty
  string. The chat file is written before the catalog is touched, so the
  \<open>KeyError\<close> of a missing catalog entry leaves the file written.
\<close>

definition save_message ::
  "string \<Rightarrow> string \<Rightarrow> string \<Rightarrow> chat_manager \<Rightarrow> (store_error + unit) \<times> chat_manager" where
  "save_message role content timestamp s =
     (case active_chat_id s of
        None \<Rightarrow> (Inl NoActiveChat, s)
      | Some a \<Rightarrow>
          if a = [] then (Inl NoActiveChat, s)
          else
            let message = \<lparr>sm_role = role, sm_content = content, sm_timestamp = timestamp\<rparr>;
                chat_data = (case chat_files s a of None \<Rightarrow> [] | Some msgs \<Rightarrow> msgs) @ [message];
                s1 = s\<lparr>chat_files := (chat_files s)(a \<mapsto> chat_data)\<rparr>
            in case chats_metadata s1 a of
                 None \<Rightarrow> (Inl (KeyError a), s1)
               | Some entry \<Rightarrow>
                   let entry' = entry\<lparr>e_updated_at := timestamp,
                                  e_messages := Some ((case e_messages entry of
                                                         None \<Rightarrow> []
                                                       | Some msgs \<Rightarrow> msgs) @ [message])\<rparr>;
                       md = (chats_metadata s1)(a \<mapsto> entry')
                   in (Inr (), s1\<lparr>chats_metadata := md, metadata_file := md\<rparr>))"

definition update_chat_title ::
  "string \<Rightarrow> string \<Rightarrow> string \<Rightarrow> chat_manager \<Rightarrow> (store_error + unit) \<times> chat_manager" where
  "update_chat_title chat_id new_title timestamp s =
     (case chats_metadata s chat_id of
        None \<Rightarrow> (Inl (ChatNotFound chat_id), s)
      | Some entry \<Rightarrow>
          let md = (chats_metadata s)(chat_id \<mapsto> entry\<lparr>e_title := new_title,
                                                       e_updated_at := timestamp\<rparr>)
          in (Inr (), s\<lparr>chats_metadata := md, metadata_file := md\<rparr>))"

definition delete_chat ::
  "string \<Rightarrow> chat_manager \<Rightarrow> (store_error + unit) \<times> chat_manager" where
  "delete_chat chat_id s =
     (case chats_metadata s chat_id of
        None \<Rightarrow> (Inl (ChatNotFound chat_id), s)
      | Some entry \<Rightarrow>
          let md = (chats_metadata s)(chat_id := None)
          in (Inr (),
              s\<lparr>chat_files := (chat_files s)(chat_id := None),
                chats_metadata := md,
                metadata_file := md,
                active_chat_id := (if active_chat_id s = Some chat_id then None
                                   else active_chat_id s)\<rparr>))"

text \<open>
  A sequence of calls on the manager, each run to its end (returning or raising) before
  the next; the arguments are those of the calls, with the id and the clock readings
  the call draws.
\<close>

datatype store_op =
  Create string string
  | Append string string string
  | Load string
  | Rename string string string
  | Delete string

fun apply_op :: "store_op \<Rightarrow> chat_manager \<Rightarrow> chat_manager" where
  "apply_op (Create chat_id timestamp) s = snd (create_new_chat chat_id timestamp s)"
| "apply_op (Append role content timestamp) s = snd (save_message role content timestamp s)"
| "apply_op (Load chat_id) s = snd (load_chat chat_id s)"
| "apply_op (Rename chat_id new_title timestamp) s =
     snd (update_chat_title chat_id new_title timestamp s)"
| "apply_op (Delete chat_id) s = snd (delete_chat chat_id s)"

fun run_ops :: "store_op list \<Rightarrow> chat_manager \<Rightarrow> chat_manager" where
  "run_ops [] s = s"
| "run_ops (x # xs) s = run_ops xs (apply_op x s)"

text \<open>
  For every session of the catalog, the message list duplicated in its entry is the one
  of its chat file.
\<close>

definition catalog_consistent :: "chat_manager \<Rightarrow> bool" where
  "catalog_consistent s =
     (\<forall>chat_id entry. chats_metadata s chat_id = Some entry \<longrightarrow>
        chat_files s chat_id \<noteq> None \<and> e_messages entry = chat_files s chat_id)"

text \<open>
  What the operations keep true of a store that started empty: chat files and catalog
  entries exist for the same ids, the active pointer names a session of the catalog, the
  catalog on disk is the one in memory, and the catalog is consistent.
\<close>

definition well_formed :: "chat_manager \<Rightarrow> bool" where
  "well_formed s =
     (dom (chat_files s) = dom (chats_metadata s)
      \<and> (case active_chat_id s of None \<Rightarrow> True | Some a \<Rightarrow> a \<in> dom (chats_metadata s))
      \<and> metadata_file s = chats_metadata s
      \<and> catalog_consistent s)"

section \<open>Properties of the splitter and the validator\<close>

lemma py_split_None: "find_sub sep s = None \<Longrightarrow> py_split s sep = [s]"
  by (simp add: py_split.simps)

lemma py_split_Some:
  "find_sub sep s = Some i \<Longrightarrow> sep \<noteq> [] \<Longrightarrow>
   py_split s sep = take i s # py_split (drop (i + length sep) s) sep"
  by (subst py_split.simps) simp

lemmas strip_defs = strip_def lstrip_def rstrip_def isspace_def

text \<open>
  The two example calls of the splitter: the single block is cut out, and the text after
  its closing marker is trimmed and joined with a space onto the trimmed text before
  the opening marker; a text without markers is returned trimmed, with no reasoning.
\<close>

lemma split_examples:
  "extract_content_and_thoughts ''Hello <think>because</think> world'' =
     (''Hello world'', ''because'')
   \<and> extract_content_and_thoughts ''plain text'' = (''plain text'', [])"
  by (simp add: extract_content_and_thoughts_def py_split_Some py_split_None strip_defs)

text \<open>
  C7. The claim: the text after the closing marker is trimmed and joined with a space
  onto the text before the opening marker. The code on a reply the validator accepts,
  \<open>x<think>a</think>y<think>long enough text</think>\<close>: the text after the first
  closing marker is \<open>y<think>long enough text</think>\<close>, and the answer returned is
  \<open>x y\<close>, not \<open>x y<think>long enough text</think>\<close>. Only \<open>parts[1]\<close> and
  \<open>think_parts[1]\<close> are read, so whatever follows the next marker is dropped, here
  the very block the validator checked.
\<close>

theorem split_drops_text_after_closing_marker:
  "validate_response fromstring ''x<think>a</think>y<think>long enough text</think>'' = Inr True
   \<and> ''x<think>a</think>y<think>long enough text</think>'' =
       ''x'' @ ''<think>'' @ ''a'' @ ''</think>'' @ ''y<think>long enough text</think>''
   \<and> extract_content_and_thoughts ''x<think>a</think>y<think>long enough text</think>'' =
       (''x y'', ''a'')
   \<and> strip (strip ''x'' @ '' '' @ strip ''y<think>long enough text</think>'') =
       ''x y<think>long enough text</think>''"
  by code_simp

text \<open>
  C4. The validator accepts \<open>answer <think>sufficiently long reasoning text</think>\<close> and
  rejects \<open><think>short</think> trailing\<close>, \<open>no blocks here\<close> and \<open><think>tiny</think>\<close>.
\<close>

theorem validate_examples:
  "validate_response fromstring ''answer <think>sufficiently long reasoning text</think>'' =
     Inr True
   \<and> validate_response fromstring ''<think>short</think> trailing'' = Inr False
   \<and> validate_response fromstring ''no blocks here'' = Inr False
   \<and> validate_response fromstring ''<think>tiny</think>'' = Inr False"
  by code_simp

text \<open>
  C2. The claim: a reply is rejected whenever a sibling follows its last reasoning block
  under the block's parent. The code at such a reply: the wrapped text parses, its root
  has the reasoning block as first child and a \<open>b\<close> element after it, and the validator
  accepts. \<open>find('.//*[think]')\<close> never yields the root, so for a block directly under
  the root there is no parent to check.
\<close>

theorem validate_accepts_trailing_sibling:
  "fromstring ''<root><think>this is long enough</think><b>trailing</b></root>'' =
     Some (Element ''root'' None
            [Element ''think'' (Some ''this is long enough'') [] None,
             Element ''b'' (Some ''trailing'') [] None] None)
   \<and> validate_response fromstring ''<think>this is long enough</think><b>trailing</b>'' =
     Inr True"
  by code_simp

section \<open>Properties of the chat store\<close>

lemma well_formed_empty: "well_formed empty_store"
  by (simp add: well_formed_def empty_store_def catalog_consistent_def)

lemma well_formed_create: "well_formed s \<Longrightarrow> well_formed (snd (create_new_chat c t s))"
  by (auto simp: well_formed_def create_new_chat_def catalog_consistent_def Let_def
           split: option.splits)

lemma well_formed_load: "well_formed s \<Longrightarrow> well_formed (snd (load_chat c s))"
  by (auto simp: well_formed_def load_chat_def catalog_consistent_def split: option.splits)

lemma well_formed_save: "well_formed s \<Longrightarrow> well_formed (snd (save_message r c t s))"
  by (auto simp: well_formed_def save_message_def catalog_consistent_def Let_def
           split: option.splits if_splits)

lemma well_formed_rename: "well_formed s \<Longrightarrow> well_formed (snd (update_chat_title c n t s))"
  by (auto simp: well_formed_def update_chat_title_def catalog_consistent_def Let_def
           split: option.splits if_splits)

lemma well_formed_delete: "well_formed s \<Longrightarrow> well_formed (snd (delete_chat c s))"
  by (auto simp: well_formed_def delete_chat_def catalog_consistent_def Let_def
           split: option.splits if_splits)

lemma well_formed_apply_op: "well_formed s \<Longrightarrow> well_formed (apply_op x s)"
  by (cases x)
     (simp_all add: well_formed_create well_formed_load well_formed_save well_formed_rename
                    well_formed_delete)

lemma well_formed_run_ops: "well_formed s \<Longrightarrow> well_formed (run_ops xs s)"
  by (induction xs arbitrary: s) (simp_all add: well_formed_apply_op)

lemma str_nat_small:
  "str_nat 1 = ''1''" "str_nat 2 = ''2''" "str_nat (Suc 0) = ''1''"
  "str_nat (Suc (Suc 0)) = ''2''"
  by (subst str_nat.simps, simp)+

text \<open>
  C6. After any sequence of create, append, load, rename and delete calls on a store
  that started empty, each catalog entry's duplicated message list is the message list
  of that session's chat file (and the catalog on disk is the one in memory). In the
  model every call runs to its end; a crash between two writes is not modelled.
\<close>

theorem catalog_matches_files:
  "catalog_consistent (run_ops xs empty_store)
   \<and> metadata_file (run_ops xs empty_store) = chats_metadata (run_ops xs empty_store)"
  using well_formed_run_ops [OF well_formed_empty, of xs] by (simp add: well_formed_def)

theorem catalog_matches_files_witness:
  "chat_files
     (run_ops [Create ''chat-a'' ''2025-01-01T10:00:00'',
               Append ''user'' ''hi'' ''2025-01-01T10:00:03''] empty_store) ''chat-a'' =
     Some [\<lparr>sm_role = ''user'', sm_content = ''hi'', sm_timestamp = ''2025-01-01T10:00:03''\<rparr>]
   \<and> map_option e_messages
        (chats_metadata
          (run_ops [Create ''chat-a'' ''2025-01-01T10:00:00'',
                    Append ''user'' ''hi'' ''2025-01-01T10:00:03''] empty_store) ''chat-a'') =
     Some (Some [\<lparr>sm_role = ''user'', sm_content = ''hi'',
                  sm_timestamp = ''2025-01-01T10:00:03''\<rparr>])"
  using catalog_matches_files
    [of "[Create ''chat-a'' ''2025-01-01T10:00:00'',
          Append ''user'' ''hi'' ''2025-01-01T10:00:03'']"]
  by (simp add: catalog_consistent_def create_new_chat_def save_message_def empty_store_def
                Let_def)

text \<open>
  C8. From any store, creating a session (with a non-empty id, as every uuid is),
  appending \<open>("user", "hi")\<close> and loading the session all succeed, and the load returns
  exactly one message, with role \<open>user\<close> and content \<open>hi\<close>.
\<close>

theorem create_append_load:
  assumes "chat_id \<noteq> []"
  shows "fst (fst (create_new_chat chat_id t1 s)) = chat_id
    \<and> fst (save_message ''user'' ''hi'' t2 (snd (create_new_chat chat_id t1 s))) = Inr ()
    \<and> fst (load_chat chat_id
             (snd (save_message ''user'' ''hi'' t2 (snd (create_new_chat chat_id t1 s))))) =
        Inr [\<lparr>sm_role = ''user'', sm_content = ''hi'', sm_timestamp = t2\<rparr>]"
  using assms by (simp add: create_new_chat_def save_message_def load_chat_def Let_def)

theorem create_append_load_witness:
  "fst (load_chat ''3f2b8c1e-7a4d-4e9b-9c55-0d1e2f3a4b5c''
         (snd (save_message ''user'' ''hi'' ''2025-01-01T10:00:01''
           (snd (create_new_chat ''3f2b8c1e-7a4d-4e9b-9c55-0d1e2f3a4b5c''
                   ''2025-01-01T10:00:00'' empty_store))))) =
   Inr [\<lparr>sm_role = ''user'', sm_content = ''hi'', sm_timestamp = ''2025-01-01T10:00:01''\<rparr>]"
  using create_append_load
    [of "''3f2b8c1e-7a4d-4e9b-9c55-0d1e2f3a4b5c''" "''2025-01-01T10:00:00''" empty_store
        "''2025-01-01T10:00:01''"]
  by simp

text \<open>
  C9. Deleting a session of the catalog succeeds; it leaves the active session pointer
  as it was when another session is active (or none), and clears it when the deleted
  session is the active one.
\<close>

theorem delete_active_pointer:
  assumes "chats_metadata s chat_id \<noteq> None"
  shows "fst (delete_chat chat_id s) = Inr ()
    \<and> (active_chat_id s \<noteq> Some chat_id \<longrightarrow>
         active_chat_id (snd (delete_chat chat_id s)) = active_chat_id s)
    \<and> (active_chat_id s = Some chat_id \<longrightarrow>
         active_chat_id (snd (delete_chat chat_id s)) = None)"
  using assms by (auto simp: delete_chat_def Let_def)

lemma two_chats:
  "chats_metadata (run_ops [Create ''chat-a'' ''2025-01-01T10:00:00'',
                            Create ''chat-b'' ''2025-01-01T10:00:05''] empty_store)
     ''chat-a'' \<noteq> None"
  "chats_metadata (run_ops [Create ''chat-a'' ''2025-01-01T10:00:00'',
                            Create ''chat-b'' ''2025-01-01T10:00:05''] empty_store)
     ''chat-b'' \<noteq> None"
  "active_chat_id (run_ops [Create ''chat-a'' ''2025-01-01T10:00:00'',
                            Create ''chat-b'' ''2025-01-01T10:00:05''] empty_store) =
     Some ''chat-b''"
  by (simp_all add: create_new_chat_def empty_store_def Let_def)

theorem delete_active_pointer_witness:
  "active_chat_id
     (snd (delete_chat ''chat-a''
        (run_ops [Create ''chat-a'' ''2025-01-01T10:00:00'',
                  Create ''chat-b'' ''2025-01-01T10:00:05''] empty_store))) = Some ''chat-b''
   \<and> active_chat_id
     (snd (delete_chat ''chat-b''
        (run_ops [Create ''chat-a'' ''2025-01-01T10:00:00'',
                  Create ''chat-b'' ''2025-01-01T10:00:05''] empty_store))) = None"
  using
    delete_active_pointer
      [of "run_ops [Create ''chat-a'' ''2025-01-01T10:00:00'',
                    Create ''chat-b'' ''2025-01-01T10:00:05''] empty_store" "''chat-a''"]
    delete_active_pointer
      [of "run_ops [Create ''chat-a'' ''2025-01-01T10:00:00'',
                    Create ''chat-b'' ''2025-01-01T10:00:05''] empty_store" "''chat-b''"]
  by (simp only: two_chats) simp

text \<open>
  C10. \<open>create_new_chat\<close> titles the session \<open>Chat N\<close> with \<open>N\<close> one more than the
  number of catalog entries at the call, whatever titles exist. So titles repeat: after
  create A, create B, delete A, create C the sessions B and C are both in the catalog
  and both titled \<open>Chat 2\<close>.
\<close>

theorem default_titles_repeat:
  "(\<forall>s chat_id timestamp.
      snd (fst (create_new_chat chat_id timestamp s)) =
        ''Chat '' @ str_nat (card (dom (chats_metadata s)) + 1)
      \<and> map_option e_title (chats_metadata (snd (create_new_chat chat_id timestamp s)) chat_id) =
        Some (''Chat '' @ str_nat (card (dom (chats_metadata s)) + 1)))
   \<and> map_option e_title
        (chats_metadata
           (run_ops [Create ''chat-a'' ''2025-01-01T10:00:00'',
                     Create ''chat-b'' ''2025-01-01T10:00:05'',
                     Delete ''chat-a'',
                     Create ''chat-c'' ''2025-01-01T10:00:09''] empty_store)
           ''chat-b'') = Some ''Chat 2''
   \<and> map_option e_title
        (chats_metadata
           (run_ops [Create ''chat-a'' ''2025-01-01T10:00:00'',
                     Create ''chat-b'' ''2025-01-01T10:00:05'',
                     Delete ''chat-a'',
                     Create ''chat-c'' ''2025-01-01T10:00:09''] empty_store)
           ''chat-c'') = Some ''Chat 2''"
  by (simp add: create_new_chat_def delete_chat_def empty_store_def Let_def str_nat_small)

section \<open>Properties of the retry loop\<close>

lemma system_entries_append [simp]:
  "system_entries (xs @ ys) = system_entries xs + system_entries ys"
  by (simp add: system_entries_def)

lemma system_entries_escalations:
  "system_entries (concat (map (escalation w) js)) = length js"
  by (induction js) (simp_all add: system_entries_def escalation_def)

lemma upt_from: "a < j \<Longrightarrow> [a..<j] = a # [Suc a..<j]"
  by (simp add: upt_conv_Cons)

lemma attempts_rejected_then_valid:
  assumes "a \<le> k" and "int k < w_max_retries w" and "length sent = a"
    and rej: "\<forall>i. a \<le> i \<and> i < k \<longrightarrow>
           (\<exists>c. chat i (w_model w) (ms @ concat (map (escalation w) [a..<i])) = Inr c
                \<and> validate_response parse c = Inr False)"
    and acc: "\<exists>c. chat k (w_model w) (ms @ concat (map (escalation w) [a..<k])) = Inr c
                \<and> validate_response parse c = Inr True"
  shows "attempts parse chat w a ms sent =
           (chat k (w_model w) (ms @ concat (map (escalation w) [a..<k])),
            sent @ map (\<lambda>j. ms @ concat (map (escalation w) [a..<j])) [a..<Suc k])"
  using assms
proof (induction "k - a" arbitrary: a ms sent)
  case 0
  then have [simp]: "a = k" by simp
  from 0 show ?case
    by (subst attempts.simps) auto
next
  case (Suc d)
  then have lt: "a < k" by simp
  from Suc.prems(4) lt obtain c where c: "chat a (w_model w) ms = Inr c"
    "validate_response parse c = Inr False"
    by fastforce
  have step: "attempts parse chat w a ms sent =
      attempts parse chat w (Suc a) (ms @ escalation w a) (sent @ [ms])"
    using c lt Suc.prems(2,3) by (subst attempts.simps) simp
  have eq: "\<And>j. a < j \<Longrightarrow> (ms @ escalation w a) @ concat (map (escalation w) [Suc a..<j]) =
      ms @ concat (map (escalation w) [a..<j])"
    by (simp add: upt_from)
  have "attempts parse chat w (Suc a) (ms @ escalation w a) (sent @ [ms]) =
     (chat k (w_model w) ((ms @ escalation w a) @ concat (map (escalation w) [Suc a..<k])),
      (sent @ [ms]) @ map (\<lambda>j. (ms @ escalation w a) @ concat (map (escalation w) [Suc a..<j])) [Suc a..<Suc k])"
  proof (rule Suc.hyps(1))
    show "d = k - Suc a" using Suc.hyps(2) by simp
    show "Suc a \<le> k" using lt by simp
    show "int k < w_max_retries w" by (rule Suc.prems(2))
    show "length (sent @ [ms]) = Suc a" using Suc.prems(3) by simp
    show "\<forall>i. Suc a \<le> i \<and> i < k \<longrightarrow>
        (\<exists>c. chat i (w_model w) ((ms @ escalation w a) @ concat (map (escalation w) [Suc a..<i])) = Inr c \<and>
             validate_response parse c = Inr False)"
      using Suc.prems(4) by (auto simp: eq simp del: append_assoc)
    show "\<exists>c. chat k (w_model w) ((ms @ escalation w a) @ concat (map (escalation w) [Suc a..<k])) = Inr c \<and>
       validate_response parse c = Inr True"
      using Suc.prems(5) lt by (simp only: eq)
  qed
  moreover have "map (\<lambda>j. (ms @ escalation w a) @ concat (map (escalation w) [Suc a..<j])) [Suc a..<Suc k]
      = map (\<lambda>j. ms @ concat (map (escalation w) [a..<j])) [Suc a..<Suc k]"
    by (rule map_cong) (auto simp: eq simp del: append_assoc)
  moreover have "[a..<Suc k] = a # [Suc a..<Suc k]" using lt by (simp add: upt_conv_Cons)
  ultimately show ?case using lt by (simp add: step eq del: append_assoc upt_Suc)
qed

lemma attempts_extends:
  "prefix sent (snd (attempts parse chat w a ms sent))"
proof (induction parse chat w a ms sent rule: attempts.induct)
  case (1 parse chat w attempt messages sent)
  show ?case
    using "1.IH"
    by (simp only: attempts.simps [of parse chat w attempt messages sent])
       (fastforce split: sum.splits dest: append_prefixD)
qed

lemma attempts_longer:
  "snd (attempts parse chat w a ms (sent @ [m])) \<noteq> sent"
  using attempts_extends [of "sent @ [m]" parse chat w a ms] by (auto simp: prefix_def)

lemma attempts_failure:
  "snd (attempts parse chat w a ms sent) = sent
     \<or> (\<exists>c. chat (length (snd (attempts parse chat w a ms sent)) - 1) (w_model w)
             (last (snd (attempts parse chat w a ms sent))) = Inr c
           \<and> validate_response parse c = Inr False) \<Longrightarrow>
   fst (attempts parse chat w a ms sent) =
     Inl ''Failed to get valid response with proper think tags''"
proof (induction parse chat w a ms sent rule: attempts.induct)
  case (1 parse chat w attempt messages sent)
  show ?case
    using "1.IH" "1.prems"
    by (simp only: attempts.simps [of parse chat w attempt messages sent])
       (auto split: sum.splits if_splits simp: attempts_longer)
qed

lemma attempts_failure_calls:
  "fst (attempts parse chat w a ms sent) = Inl msg \<Longrightarrow>
   length (snd (attempts parse chat w a ms sent)) = length sent + (nat (w_max_retries w) - a)"
proof (induction parse chat w a ms sent rule: attempts.induct)
  case (1 parse chat w attempt messages sent)
  show ?case
    using "1.IH" "1.prems"
    by (simp only: attempts.simps [of parse chat w attempt messages sent])
       (auto split: sum.splits if_splits)
qed


lemma validate_no_blocks: "validate_response fromstring ''no blocks here'' = Inr False"
  by code_simp

lemma validate_answer:
  "validate_response fromstring ''answer <think>sufficiently long reasoning text</think>'' = Inr True"
  by code_simp

text \<open>
  C1. With \<open>max_retries = 10\<close>, when the replies to the first nine requests of the run
  are rejected by the validator and the reply to the tenth is accepted, the run returns
  the content of the tenth reply, issues exactly ten backend calls, and each request
  from the second on holds exactly one more \<open>system\<close> entry than the one before it.
\<close>

theorem ten_attempts:
  assumes mr: "w_max_retries w = 10"
    and rej: "\<forall>i<9. \<exists>c. chat i (w_model w)
                 (initial_messages w @ concat (map (escalation w) [0..<i])) = Inr c
               \<and> validate_response parse c = Inr False"
    and acc: "\<exists>c. chat 9 (w_model w)
                 (initial_messages w @ concat (map (escalation w) [0..<9])) = Inr c
               \<and> validate_response parse c = Inr True"
  shows "(\<exists>c. fst (get_valid_response parse chat w) = Inr c
            \<and> chat 9 (w_model w) (snd (get_valid_response parse chat w) ! 9) = Inr c)
    \<and> length (snd (get_valid_response parse chat w)) = 10
    \<and> (\<forall>i. 1 \<le> i \<and> i < 10 \<longrightarrow>
          system_entries (snd (get_valid_response parse chat w) ! i) =
          system_entries (snd (get_valid_response parse chat w) ! (i - 1)) + 1)"
proof -
  let ?req = "\<lambda>j. initial_messages w @ concat (map (escalation w) [0..<j])"
  have run: "get_valid_response parse chat w = (chat 9 (w_model w) (?req 9), map ?req [0..<Suc 9])"
    unfolding get_valid_response_def
    using attempts_rejected_then_valid [of 0 9 w "[]" chat "initial_messages w" parse] mr rej acc
    by simp
  have nth: "\<And>i. i < 10 \<Longrightarrow> map ?req [0..<Suc 9] ! i = ?req i"
    by (simp del: upt_Suc)
  from acc obtain c where c: "chat 9 (w_model w) (?req 9) = Inr c" by blast
  have "fst (get_valid_response parse chat w) = Inr c
        \<and> chat 9 (w_model w) (snd (get_valid_response parse chat w) ! 9) = Inr c"
    using c nth [of 9] by (simp add: run del: upt_Suc)
  moreover have "length (snd (get_valid_response parse chat w)) = 10"
    by (simp add: run del: upt_Suc)
  moreover have "\<forall>i. 1 \<le> i \<and> i < 10 \<longrightarrow>
          system_entries (snd (get_valid_response parse chat w) ! i) =
          system_entries (snd (get_valid_response parse chat w) ! (i - 1)) + 1"
  proof (intro allI impI)
    fix i :: nat assume i: "1 \<le> i \<and> i < 10"
    then have "i - 1 < 10" by arith
    with i show "system_entries (snd (get_valid_response parse chat w) ! i) =
          system_entries (snd (get_valid_response parse chat w) ! (i - 1)) + 1"
      using nth [of i] nth [of "i - 1"]
      by (simp add: run system_entries_escalations del: upt_Suc)
  qed
  ultimately show ?thesis by blast
qed

theorem ten_attempts_witness:
  "fst (get_valid_response fromstring
         (scripted (replicate 9 (Inr ''no blocks here'') @
                    [Inr ''answer <think>sufficiently long reasoning text</think>'']))
         \<lparr>w_prompt = ''What is 2 + 2?'', w_message_history = [], w_max_retries = 10,
          w_model = ''deepseek-r1:7b'', w_system_prompt = ''You are a helpful AI assistant.''\<rparr>) =
     Inr ''answer <think>sufficiently long reasoning text</think>''
   \<and> length (snd (get_valid_response fromstring
         (scripted (replicate 9 (Inr ''no blocks here'') @
                    [Inr ''answer <think>sufficiently long reasoning text</think>'']))
         \<lparr>w_prompt = ''What is 2 + 2?'', w_message_history = [], w_max_retries = 10,
          w_model = ''deepseek-r1:7b'', w_system_prompt = ''You are a helpful AI assistant.''\<rparr>)) = 10"
  using ten_attempts
    [of "\<lparr>w_prompt = ''What is 2 + 2?'', w_message_history = [], w_max_retries = 10,
          w_model = ''deepseek-r1:7b'', w_system_prompt = ''You are a helpful AI assistant.''\<rparr>"
        "scripted (replicate 9 (Inr ''no blocks here'') @
                    [Inr ''answer <think>sufficiently long reasoning text</think>''])"
        fromstring]
  by (simp add: scripted_def nth_append validate_no_blocks validate_answer)

text \<open>
  Every run that ends on a reply the validator rejected (or makes no call at all, for
  \<open>max_retries \<le> 0\<close>) has issued exactly \<open>max_retries\<close> calls and raises the
  literal message of the last line of \<open>get_valid_response\<close>.
\<close>

lemma rejected_run_message:
  assumes "snd (get_valid_response parse chat w) = []
     \<or> (\<exists>c. chat (length (snd (get_valid_response parse chat w)) - 1) (w_model w)
             (last (snd (get_valid_response parse chat w))) = Inr c
           \<and> validate_response parse c = Inr False)"
  shows "fst (get_valid_response parse chat w) =
           Inl ''Failed to get valid response with proper think tags''
    \<and> length (snd (get_valid_response parse chat w)) = nat (w_max_retries w)"
proof -
  have f: "fst (get_valid_response parse chat w) =
           Inl ''Failed to get valid response with proper think tags''"
    using assms unfolding get_valid_response_def by (rule attempts_failure)
  from attempts_failure_calls [of parse chat w 0 "initial_messages w" "[]"] f
  show ?thesis by (simp add: get_valid_response_def)
qed

lemma rejected_run_message_example:
  "fst (get_valid_response fromstring (scripted (replicate 3 (Inr ''no blocks here'')))
         \<lparr>w_prompt = ''Why is the sky blue?'', w_message_history = [], w_max_retries = 3,
          w_model = ''deepseek-r1:7b'', w_system_prompt = ''You are a helpful AI assistant.''\<rparr>) =
     Inl ''Failed to get valid response with proper think tags''
   \<and> length (snd (get_valid_response fromstring (scripted (replicate 3 (Inr ''no blocks here'')))
         \<lparr>w_prompt = ''Why is the sky blue?'', w_message_history = [], w_max_retries = 3,
          w_model = ''deepseek-r1:7b'', w_system_prompt = ''You are a helpful AI assistant.''\<rparr>)) = 3"
proof -
  let ?w = "\<lparr>w_prompt = ''Why is the sky blue?'', w_message_history = [], w_max_retries = 3,
          w_model = ''deepseek-r1:7b'', w_system_prompt = ''You are a helpful AI assistant.''\<rparr>"
  let ?chat = "scripted (replicate 3 (Inr ''no blocks here''))"
  have len: "length (snd (get_valid_response fromstring ?chat ?w)) = 3"
    by code_simp
  have "\<exists>c. ?chat (length (snd (get_valid_response fromstring ?chat ?w)) - 1) (w_model ?w)
             (last (snd (get_valid_response fromstring ?chat ?w))) = Inr c
           \<and> validate_response fromstring c = Inr False"
    by (simp add: len scripted_def validate_no_blocks)
  then have "snd (get_valid_response fromstring ?chat ?w) = []
     \<or> (\<exists>c. ?chat (length (snd (get_valid_response fromstring ?chat ?w)) - 1) (w_model ?w)
             (last (snd (get_valid_response fromstring ?chat ?w))) = Inr c
           \<and> validate_response fromstring c = Inr False)"
    by (rule disjI2)
  from rejected_run_message [OF this] show ?thesis by simp
qed

text \<open>
  C3. The claim: a run that exhausts its attempts without a validated reply fails with
  a message that names the retry budget. The code with \<open>max_retries = 10\<close> and ten
  rejected replies: ten calls, then the message
  \<open>Failed to get valid response with proper think tags\<close>, in which \<open>10\<close> does not
  occur. The other terminal failure of the same function, an exception on the last
  attempt, does name the budget: \<open>Failed to get valid response after 10 attempts: ...\<close>.
\<close>

theorem no_budget_in_message:
  "fst (get_valid_response fromstring (scripted (replicate 10 (Inr ''no blocks here'')))
         \<lparr>w_prompt = ''What is 2 + 2?'', w_message_history = [], w_max_retries = 10,
          w_model = ''deepseek-r1:7b'', w_system_prompt = ''You are a helpful AI assistant.''\<rparr>) =
     Inl ''Failed to get valid response with proper think tags''
   \<and> length (snd (get_valid_response fromstring (scripted (replicate 10 (Inr ''no blocks here'')))
         \<lparr>w_prompt = ''What is 2 + 2?'', w_message_history = [], w_max_retries = 10,
          w_model = ''deepseek-r1:7b'', w_system_prompt = ''You are a helpful AI assistant.''\<rparr>)) = 10
   \<and> str_int 10 = ''10''
   \<and> \<not> sublist (str_int 10) ''Failed to get valid response with proper think tags''
   \<and> fst (get_valid_response fromstring (scripted (replicate 10 (Inl ''connection refused'')))
         \<lparr>w_prompt = ''What is 2 + 2?'', w_message_history = [], w_max_retries = 10,
          w_model = ''deepseek-r1:7b'', w_system_prompt = ''You are a helpful AI assistant.''\<rparr>) =
     Inl ''Failed to get valid response after 10 attempts: connection refused''
   \<and> sublist (str_int 10) ''Failed to get valid response after 10 attempts: connection refused''"
  by code_simp

section \<open>The splitter on unterminated reasoning\<close>

lemma find_sub_None_iff: "find_sub sep s = None \<longleftrightarrow> \<not> sublist sep s"
  by (induction s) (auto simp: sublist_Cons_right)

lemma no_marker_inside:
  assumes "\<not> sublist sep s" and "sublist t s"
  shows "find_sub sep t = None"
proof -
  have "\<not> sublist sep t"
    using assms sublist_order.order.trans by blast
  then show ?thesis by (simp add: find_sub_None_iff)
qed

lemma py_split_first:
  "sep \<noteq> [] \<Longrightarrow>
   \<exists>rest. py_split s sep =
      (case find_sub sep s of None \<Rightarrow> s | Some j \<Rightarrow> take j s) # rest"
  by (cases "find_sub sep s") (simp_all add: py_split_None py_split_Some)

text \<open>
  C5 (as amended). \<open>extract_content_and_thoughts\<close> returns a pair for every string: the
  string operations of its body cannot raise on a \<open>str\<close>, and the model is a total
  function. For a text with an opening marker and no closing marker, the reasoning is
  the trimmed text after the first opening marker, up to the next opening marker or the
  end of the text, and the answer is the trimmed text before the first opening marker.
\<close>

theorem unterminated_reasoning:
  "(\<forall>content. \<exists>answer reasoning. extract_content_and_thoughts content = (answer, reasoning))
   \<and> (\<forall>content. sublist ''<think>'' content \<and> \<not> sublist ''</think>'' content \<longrightarrow>
        (\<exists>i. find_sub ''<think>'' content = Some i
           \<and> extract_content_and_thoughts content =
               (strip (take i content),
                strip (case find_sub ''<think>'' (drop (i + 7) content) of
                         None \<Rightarrow> drop (i + 7) content
                       | Some j \<Rightarrow> take j (drop (i + 7) content)))))"
proof (intro conjI allI impI)
  fix content
  show "\<exists>answer reasoning. extract_content_and_thoughts content = (answer, reasoning)"
    by (cases "extract_content_and_thoughts content") blast
next
  fix content :: string
  assume h: "sublist ''<think>'' content \<and> \<not> sublist ''</think>'' content"
  then obtain i where i: "find_sub ''<think>'' content = Some i"
    using find_sub_None_iff [of "''<think>''" content] by (cases "find_sub ''<think>'' content") auto
  let ?rest = "drop (i + 7) content"
  let ?p1 = "case find_sub ''<think>'' ?rest of None \<Rightarrow> ?rest | Some j \<Rightarrow> take j ?rest"
  obtain more where more: "py_split ?rest ''<think>'' = ?p1 # more"
    using py_split_first [of "''<think>''" ?rest] by auto
  have len: "i + length ''<think>'' = i + 7" by simp
  have "py_split content ''<think>'' =
          take i content # py_split (drop (i + length ''<think>'') content) ''<think>''"
    by (rule py_split_Some [OF i]) simp
  then have parts: "py_split content ''<think>'' = take i content # ?p1 # more"
    by (simp only: len more)
  have "sublist ?p1 ?rest"
    by (cases "find_sub ''<think>'' ?rest") simp_all
  then have "sublist ?p1 content"
    using sublist_drop sublist_order.order.trans by blast
  with h have "find_sub ''</think>'' ?p1 = None"
    by (intro no_marker_inside [of _ content]) simp_all
  then have think_parts: "py_split ?p1 ''</think>'' = [?p1]"
    by (rule py_split_None)
  have "extract_content_and_thoughts content = (strip (take i content), strip ?p1)"
    by (simp add: extract_content_and_thoughts_def parts think_parts Let_def)
  with i show "\<exists>i. find_sub ''<think>'' content = Some i
           \<and> extract_content_and_thoughts content =
               (strip (take i content),
                strip (case find_sub ''<think>'' (drop (i + 7) content) of
                         None \<Rightarrow> drop (i + 7) content
                       | Some j \<Rightarrow> take j (drop (i + 7) content)))"
    by blast
qed

theorem unterminated_reasoning_witness:
  "extract_content_and_thoughts ''see <think>because <think>again'' = (''see'', ''because'')"
proof -
  have "sublist ''<think>'' ''see <think>because <think>again''
        \<and> \<not> sublist ''</think>'' ''see <think>because <think>again''"
    by (simp add: sublist_Cons_right)
  with unterminated_reasoning obtain i where
    i: "find_sub ''<think>'' ''see <think>because <think>again'' = Some i" and
    r: "extract_content_and_thoughts ''see <think>because <think>again'' =
       (strip (take i ''see <think>because <think>again''),
        strip (case find_sub ''<think>'' (drop (i + 7) ''see <think>because <think>again'') of
                 None \<Rightarrow> drop (i + 7) ''see <think>because <think>again''
               | Some j \<Rightarrow> take j (drop (i + 7) ''see <think>because <think>again'')))"
    by blast
  from i have "i = 4" by simp
  with r show ?thesis by (simp add: strip_defs)
qed

text \<open>
  C5 as stated fails: \<open>a <think>b\<close> has an opening marker and no closing marker, and its
  reasoning is \<open>b\<close>, not the empty string.
\<close>

theorem unterminated_reasoning_not_empty:
  "sublist ''<think>'' ''a <think>b'' \<and> \<not> sublist ''</think>'' ''a <think>b''
   \<and> extract_content_and_thoughts ''a <think>b'' = (''a'', ''b'')
   \<and> snd (extract_content_and_thoughts ''a <think>b'') \<noteq> []"
  by (simp add: extract_content_and_thoughts_def py_split_Some py_split_None strip_defs sublist_Cons_right)

end
